theory Spec2Isabelle
  imports Main
begin

section \<open>The business form of \<open>AddBusiness.tsx\<close>\<close>

subsection \<open>Objects and arrays as the runtime has them\<close>

text \<open>
  \<open>MachineForm\<close> is declared with five string fields, but the component writes its objects
  with a computed key (\<^verbatim>\<open>[name]: value\<close>) and may build one from nothing, so a machine is
  modelled as the runtime has it: its own properties in enumeration order. A position of
  the machinery array holds a machine object, or \<^verbatim>\<open>undefined\<close>, or nothing at all (an empty
  slot, as an assignment past the end of an array leaves behind).
\<close>

type_synonym MachineForm = "(string \<times> string) list"

datatype slot = Empty | Undefined | Machine MachineForm

record BusinessForm =
  name :: string
  corporateId :: "string option"
  phone :: "string option"
  website :: "string option"
  description :: "string option"
  businessType :: "string option"
  location :: "string option"
  email :: "string option"
  isOpen :: bool
  openToNewBusiness :: bool
  machinery :: "slot list option"

definition initialMachineForm :: MachineForm where
  "initialMachineForm =
     [(''name'', ''''), (''description'', ''''), (''manufacturer'', ''''),
      (''yearOfManufacture'', ''''), (''specifications'', '''')]"

definition initialBusinessForm :: BusinessForm where
  "initialBusinessForm =
     \<lparr> name = '''', corporateId = Some '''', phone = Some '''', website = Some '''',
       description = Some '''', businessType = Some '''', location = Some '''',
       email = Some '''', isOpen = True, openToNewBusiness = True, machinery = Some [] \<rparr>"

text \<open>
  Property keys that are array indices (canonical decimal numerals below \<open>2^32 - 1\<close>) are
  enumerated first, in ascending order; all other keys follow in the order of their
  creation. Writing an existing key keeps its place.
\<close>

definition is_digit :: "char \<Rightarrow> bool" where
  "is_digit c = ((48::int) \<le> of_char c \<and> (of_char c :: int) \<le> 57)"

definition digits_value :: "string \<Rightarrow> int" where
  "digits_value s = foldl (\<lambda>n c. 10 * n + (of_char c - 48)) 0 s"

definition key_index :: "string \<Rightarrow> int option" where
  "key_index k =
     (if k \<noteq> [] \<and> list_all is_digit k \<and> (hd k \<noteq> CHR ''0'' \<or> k = ''0'')
         \<and> digits_value k < 2 ^ 32 - 1
      then Some (digits_value k) else None)"

fun obj_insert :: "string \<Rightarrow> 'v \<Rightarrow> (string \<times> 'v) list \<Rightarrow> (string \<times> 'v) list" where
  "obj_insert k v [] = [(k, v)]"
| "obj_insert k v ((k', v') # ps) =
     (case key_index k of
        None \<Rightarrow> (k', v') # obj_insert k v ps
      | Some n \<Rightarrow>
          (case key_index k' of
             None \<Rightarrow> (k, v) # (k', v') # ps
           | Some m \<Rightarrow> if m < n then (k', v') # obj_insert k v ps
                       else (k, v) # (k', v') # ps))"

fun obj_replace :: "string \<Rightarrow> 'v \<Rightarrow> (string \<times> 'v) list \<Rightarrow> (string \<times> 'v) list" where
  "obj_replace k v [] = []"
| "obj_replace k v ((k', v') # ps) =
     (if k' = k then (k', v) else (k', v')) # obj_replace k v ps"

definition obj_set :: "string \<Rightarrow> 'v \<Rightarrow> (string \<times> 'v) list \<Rightarrow> (string \<times> 'v) list" where
  "obj_set k v ps =
     (if k \<in> fst ` set ps then obj_replace k v ps else obj_insert k v ps)"

subsection \<open>Array operations\<close>

text \<open>\<^verbatim>\<open>prev.machinery || []\<close>: an absent list reads as the empty one (every array is truthy).\<close>

definition machinery_or_empty :: "BusinessForm \<Rightarrow> slot list" where
  "machinery_or_empty prev = (case machinery prev of None \<Rightarrow> [] | Some ms \<Rightarrow> ms)"

text \<open>The spread \<^verbatim>\<open>[...xs]\<close> copies by iteration, which reads an empty slot as \<^verbatim>\<open>undefined\<close>.\<close>

fun spread_slot :: "slot \<Rightarrow> slot" where
  "spread_slot Empty = Undefined"
| "spread_slot s = s"

definition array_spread :: "slot list \<Rightarrow> slot list" where
  "array_spread xs = map spread_slot xs"

text \<open>
  \<^verbatim>\<open>xs[index]\<close> as an expression: out of range (or a negative index, which names an ordinary
  property that a fresh array does not have) it is \<^verbatim>\<open>undefined\<close>, and so is an empty slot.
\<close>

definition array_get :: "slot list \<Rightarrow> int \<Rightarrow> slot" where
  "array_get xs i =
     (if 0 \<le> i \<and> nat i < length xs then spread_slot (xs ! nat i) else Undefined)"

text \<open>
  \<^verbatim>\<open>xs[index] = v\<close>: inside the array it overwrites; at or past the end it extends the array
  to \<open>index + 1\<close> positions, the new ones in between empty; a negative index, or one that is
  no array index (\<open>2^32 - 1\<close> and above), sets an ordinary property and leaves the element
  sequence alone (an array has fewer than \<open>2^32\<close> positions, so such an index is never
  inside). The index is an integer here; fractional numbers are outside the model.
\<close>

definition array_assign :: "slot list \<Rightarrow> int \<Rightarrow> slot \<Rightarrow> slot list" where
  "array_assign xs i v =
     (if 0 \<le> i \<and> nat i < length xs then xs[nat i := v]
      else if i < 0 \<or> 2 ^ 32 - 1 \<le> i then xs
      else xs @ replicate (nat i - length xs) Empty @ [v])"

text \<open>\<^verbatim>\<open>{...s}\<close>: spreading \<^verbatim>\<open>undefined\<close> gives the empty object.\<close>

fun spread_props :: "slot \<Rightarrow> MachineForm" where
  "spread_props (Machine m) = m"
| "spread_props _ = []"

text \<open>
  \<^verbatim>\<open>xs.filter((_, i) => p(i))\<close>: positions are visited in order with their index; an empty
  slot is skipped without calling the predicate and is not copied.
\<close>

fun array_filter :: "(int \<Rightarrow> bool) \<Rightarrow> int \<Rightarrow> slot list \<Rightarrow> slot list" where
  "array_filter p i [] = []"
| "array_filter p i (x # xs) =
     (if x \<noteq> Empty \<and> p i then x # array_filter p (i + 1) xs
      else array_filter p (i + 1) xs)"

subsection \<open>The record builder\<close>

definition handleMachineChange :: "int \<Rightarrow> string \<Rightarrow> string \<Rightarrow> BusinessForm \<Rightarrow> BusinessForm" where
  "handleMachineChange index nm val prev =
     (let newMachinery = array_spread (machinery_or_empty prev);
          newMachinery' = array_assign newMachinery index
            (Machine (obj_set nm val (spread_props (array_get newMachinery index))))
      in prev\<lparr>machinery := Some newMachinery'\<rparr>)"

definition addMachine :: "BusinessForm \<Rightarrow> BusinessForm" where
  "addMachine prev =
     prev\<lparr>machinery := Some (array_spread (machinery_or_empty prev) @ [Machine initialMachineForm])\<rparr>"

definition removeMachine :: "int \<Rightarrow> BusinessForm \<Rightarrow> BusinessForm" where
  "removeMachine index prev =
     prev\<lparr>machinery := Some (array_filter (\<lambda>i. i \<noteq> index) 0 (machinery_or_empty prev))\<rparr>"

subsection \<open>JSON text\<close>

text \<open>
  The values the component serialises: strings, booleans, arrays, objects with their
  properties in enumeration order, and \<^verbatim>\<open>null\<close> (which is also what an \<^verbatim>\<open>undefined\<close> or empty
  array position is written as). Numbers do not occur in the form and are left out.
\<close>

datatype jsval =
    JNull
  | JBool bool
  | JStr string
  | JArr "jsval list"
  | JObj "(string \<times> jsval) list"

definition hex_digit :: "nat \<Rightarrow> char" where
  "hex_digit n = ''0123456789abcdef'' ! n"

text \<open>
  \<^verbatim>\<open>JSON.stringify\<close> on a string: the quote and the backslash are escaped, the control
  characters get their short escape or \<^verbatim>\<open>\u00xx\<close>, every other character stands for itself.
\<close>

definition quote_char :: "char \<Rightarrow> string" where
  "quote_char c =
     (let n = (of_char c :: nat) in
      if n = 8 then [CHR 0x5C, CHR ''b'']
      else if n = 9 then [CHR 0x5C, CHR ''t'']
      else if n = 10 then [CHR 0x5C, CHR ''n'']
      else if n = 12 then [CHR 0x5C, CHR ''f'']
      else if n = 13 then [CHR 0x5C, CHR ''r'']
      else if n = 34 then [CHR 0x5C, CHR 0x22]
      else if n = 92 then [CHR 0x5C, CHR 0x5C]
      else if n < 32 then
        [CHR 0x5C, CHR ''u'', CHR ''0'', CHR ''0'', hex_digit (n div 16), hex_digit (n mod 16)]
      else [c])"

definition quote_string :: "string \<Rightarrow> string" where
  "quote_string s = [CHR 0x22] @ concat (map quote_char s) @ [CHR 0x22]"

fun join_with :: "string \<Rightarrow> string list \<Rightarrow> string" where
  "join_with sep [] = []"
| "join_with sep [x] = x"
| "join_with sep (x # y # ys) = x @ sep @ join_with sep (y # ys)"

fun JSON_stringify :: "jsval \<Rightarrow> string" where
  "JSON_stringify JNull = ''null''"
| "JSON_stringify (JBool b) = (if b then ''true'' else ''false'')"
| "JSON_stringify (JStr s) = quote_string s"
| "JSON_stringify (JArr xs) = ''['' @ join_with '','' (map JSON_stringify xs) @ '']''"
| "JSON_stringify (JObj ps) =
     ''{'' @ join_with '','' (map (\<lambda>(k, v). quote_string k @ '':'' @ JSON_stringify v) ps) @ ''}''"

text \<open>
  The form as \<^verbatim>\<open>JSON.stringify\<close> sees it. Every state of the form descends from
  \<open>initialBusinessForm\<close> by spreads, which keep the order of the properties, so the order is
  that of the initial object. A property that is \<^verbatim>\<open>undefined\<close> is not written.
\<close>

fun slot_json :: "slot \<Rightarrow> jsval" where
  "slot_json (Machine m) = JObj (map (\<lambda>(k, v). (k, JStr v)) m)"
| "slot_json _ = JNull"

definition optional_prop :: "string \<Rightarrow> string option \<Rightarrow> (string \<times> jsval) list" where
  "optional_prop k v = (case v of None \<Rightarrow> [] | Some s \<Rightarrow> [(k, JStr s)])"

definition form_json :: "BusinessForm \<Rightarrow> jsval" where
  "form_json f =
     JObj ([(''name'', JStr (name f))]
       @ optional_prop ''corporateId'' (corporateId f)
       @ optional_prop ''phone'' (phone f)
       @ optional_prop ''website'' (website f)
       @ optional_prop ''description'' (description f)
       @ optional_prop ''businessType'' (businessType f)
       @ optional_prop ''location'' (location f)
       @ optional_prop ''email'' (email f)
       @ [(''isOpen'', JBool (isOpen f)), (''openToNewBusiness'', JBool (openToNewBusiness f))]
       @ (case machinery f of None \<Rightarrow> [] | Some ms \<Rightarrow> [(''machinery'', JArr (map slot_json ms))]))"

section \<open>The world around the component\<close>

text \<open>
  What the handlers call and cannot see into is a parameter: the build-time variables, the
  file reader, the spreadsheet library and the network. A call that throws, or a promise
  that rejects, returns \<open>Inl\<close>.
\<close>

datatype error = Error string

record request =
  url :: string
  http_method :: string
  headers :: "(string \<times> string) list"
  body :: string

text \<open>The body of a response: \<^verbatim>\<open>response.json()\<close> rejects or resolves to a value.\<close>

record response =
  ok :: bool
  json :: "error + jsval"

type_synonym File = string

text \<open>
  A sheet is a grid of cells, row by row; a workbook lists its sheet names in order and
  holds the sheets by name.
\<close>

datatype cell = Blank | Text string | Boolean bool

type_synonym worksheet = "cell list list"

record workbook =
  SheetNames :: "string list"
  Sheets :: "(string \<times> worksheet) list"

text \<open>
  What \<^verbatim>\<open>reader.readAsBinaryString(file)\<close> leads to: the call itself throws, or the reader
  later fires its error event, or its load event with the content read.
\<close>

datatype read_result = ReadThrows error | FiresError | FiresLoad string

record env =
  NODE_ENV :: "string option"
  REACT_APP_API_URL_PROD :: "string option"
  REACT_APP_API_URL :: "string option"
  readAsBinaryString :: "File \<Rightarrow> read_result"
  XLSX_read :: "string \<Rightarrow> error + workbook"
  sheet_to_json :: "worksheet option \<Rightarrow> error + jsval list"
  fetch :: "request \<Rightarrow> error + response"

text \<open>
  The component's two state cells, and the trace of what it did to the outside, in order:
  the requests sent, the routes navigated to, the lines written to the console.
\<close>

datatype event = Fetch request | Navigate string | ConsoleLog string | ConsoleError string

record state =
  formData :: BusinessForm
  importError :: "string option"
  trace :: "event list"

fun requests_of :: "event list \<Rightarrow> request list" where
  "requests_of [] = []"
| "requests_of (Fetch r # es) = r # requests_of es"
| "requests_of (_ # es) = requests_of es"

fun navigations_of :: "event list \<Rightarrow> string list" where
  "navigations_of [] = []"
| "navigations_of (Navigate route # es) = route # navigations_of es"
| "navigations_of (_ # es) = navigations_of es"

definition requests :: "state \<Rightarrow> request list" where
  "requests s = requests_of (trace s)"

definition navigations :: "state \<Rightarrow> string list" where
  "navigations s = navigations_of (trace s)"

definition apiUrl :: "env \<Rightarrow> string option" where
  "apiUrl E = (if NODE_ENV E = Some ''production'' then REACT_APP_API_URL_PROD E
               else REACT_APP_API_URL E)"

text \<open>A template literal writes \<^verbatim>\<open>undefined\<close> as the word.\<close>

definition template :: "string option \<Rightarrow> string" where
  "template v = (case v of None \<Rightarrow> ''undefined'' | Some s \<Rightarrow> s)"

definition post_json :: "string \<Rightarrow> jsval \<Rightarrow> request" where
  "post_json u v =
     \<lparr> url = u, http_method = ''POST'',
       headers = [(''Content-Type'', ''application/json'')],
       body = JSON_stringify v \<rparr>"

definition emit :: "event \<Rightarrow> state \<Rightarrow> state" where
  "emit e s = s\<lparr>trace := trace s @ [e]\<rparr>"

definition navigate :: "string \<Rightarrow> state \<Rightarrow> state" where
  "navigate route s = emit (Navigate route) s"

definition console_error :: "string \<Rightarrow> state \<Rightarrow> state" where
  "console_error msg s = emit (ConsoleError msg) s"

definition console_log :: "string \<Rightarrow> state \<Rightarrow> state" where
  "console_log msg s = emit (ConsoleLog msg) s"

definition setImportError :: "string option \<Rightarrow> state \<Rightarrow> state" where
  "setImportError v s = s\<lparr>importError := v\<rparr>"

definition send :: "request \<Rightarrow> state \<Rightarrow> state" where
  "send r s = emit (Fetch r) s"

section \<open>Submitting one record\<close>

definition submit_request :: "env \<Rightarrow> BusinessForm \<Rightarrow> request" where
  "submit_request E f = post_json (template (apiUrl E) @ ''/api/businesses'') (form_json f)"

definition handleSubmit :: "env \<Rightarrow> state \<Rightarrow> state" where
  "handleSubmit E s =
     (let r = submit_request E (formData s); s1 = send r s in
      case fetch E r of
        Inl e \<Rightarrow> console_error ''Error creating business:'' s1
      | Inr resp \<Rightarrow>
          if \<not> ok resp then console_error ''Error creating business:'' s1
          else navigate ''/businesses'' s1)"

text \<open>The submission failed: the request was rejected, or answered with a status that is not a success.\<close>

definition submit_failed :: "env \<Rightarrow> state \<Rightarrow> bool" where
  "submit_failed E s =
     (case fetch E (submit_request E (formData s)) of Inl e \<Rightarrow> True | Inr resp \<Rightarrow> \<not> ok resp)"

section \<open>The import pipeline\<close>

definition bulk_request :: "env \<Rightarrow> jsval list \<Rightarrow> request" where
  "bulk_request E jsonData =
     post_json (template (apiUrl E) @ ''/api/businesses/bulk'') (JObj [(''businesses'', JArr jsonData)])"

definition import_failed :: "state \<Rightarrow> state" where
  "import_failed s =
     console_error ''Import error:''
       (setImportError (Some ''Failed to import businesses. Please check your spreadsheet format.'') s)"

text \<open>
  \<^verbatim>\<open>workbook.Sheets[workbook.SheetNames[0]]\<close>: a workbook without sheet names gives the key
  \<^verbatim>\<open>undefined\<close>, which is looked up as that word.
\<close>

definition first_sheet :: "workbook \<Rightarrow> worksheet option" where
  "first_sheet wb =
     map_of (Sheets wb) (case SheetNames wb of [] \<Rightarrow> ''undefined'' | sheetName # _ \<Rightarrow> sheetName)"

text \<open>
  The load handler. It is an async function that the reader calls after \<open>handleFileUpload\<close>
  has returned: what it throws before its own \<^verbatim>\<open>try\<close> rejects its promise, which nothing
  observes, so the state stays as it is.
\<close>

definition reader_onload :: "env \<Rightarrow> string \<Rightarrow> state \<Rightarrow> state" where
  "reader_onload E data s =
     (case XLSX_read E data of
        Inl e \<Rightarrow> s
      | Inr wb \<Rightarrow>
          (case sheet_to_json E (first_sheet wb) of
             Inl e \<Rightarrow> s
           | Inr jsonData \<Rightarrow>
               (let r = bulk_request E jsonData; s1 = send r s in
                case fetch E r of
                  Inl e \<Rightarrow> import_failed s1
                | Inr resp \<Rightarrow>
                    if \<not> ok resp then import_failed s1
                    else (case json resp of
                            Inl e \<Rightarrow> import_failed s1
                          | Inr result \<Rightarrow>
                              navigate ''/businesses'' (console_log ''Import successful:'' s1)))))"

definition reader_onerror :: "state \<Rightarrow> state" where
  "reader_onerror s = setImportError (Some ''Error reading file'') s"

text \<open>
  The change handler of the file input, followed to the end of what it starts: the
  synchronous part, then the one event the reader fires.
\<close>

definition handleFileUpload :: "env \<Rightarrow> File option \<Rightarrow> state \<Rightarrow> state" where
  "handleFileUpload E file s =
     (let s0 = setImportError None s in
      case file of
        None \<Rightarrow> s0
      | Some f \<Rightarrow>
          (case readAsBinaryString E f of
             ReadThrows e \<Rightarrow>
               console_error ''File processing error:''
                 (setImportError (Some ''Error processing file'') s0)
           | FiresError \<Rightarrow> reader_onerror s0
           | FiresLoad data \<Rightarrow> reader_onload E data s0))"

text \<open>
  Modelled from the spec: \<^verbatim>\<open>XLSX.utils.sheet_to_json\<close> belongs to the spreadsheet library,
  which is not part of the sources. The spec describes it: the cells of the first row are
  the headers, every later row becomes an object that maps each header to the row's cell
  in the same column, and a column in which the row has no data is left out of the object.
\<close>

fun cell_key :: "cell \<Rightarrow> string option" where
  "cell_key Blank = None"
| "cell_key (Text s) = Some s"
| "cell_key (Boolean b) = Some (if b then ''true'' else ''false'')"

fun cell_value :: "cell \<Rightarrow> jsval option" where
  "cell_value Blank = None"
| "cell_value (Text s) = Some (JStr s)"
| "cell_value (Boolean b) = Some (JBool b)"

fun row_object :: "cell list \<Rightarrow> cell list \<Rightarrow> (string \<times> jsval) list" where
  "row_object (h # hs) (c # cs) =
     (case (cell_key h, cell_value c) of
        (Some k, Some v) \<Rightarrow> (k, v) # row_object hs cs
      | _ \<Rightarrow> row_object hs cs)"
| "row_object _ _ = []"

fun sheet_to_json_spec :: "worksheet \<Rightarrow> jsval list" where
  "sheet_to_json_spec [] = []"
| "sheet_to_json_spec (header # rows) = map (\<lambda>r. JObj (row_object header r)) rows"

section \<open>Concrete inputs\<close>

definition joes_sheet :: worksheet where
  "joes_sheet = [[Text ''name'', Text ''phone''], [Text ''Joe's Shop'', Text ''555-1234'']]"

definition notes_sheet :: worksheet where
  "notes_sheet = [[Text ''note''], [Text ''draft'']]"

text \<open>
  Joe's workbook has two sheets. The first by the order of the sheet names is the one with
  the businesses; the sheets themselves are held in another order.
\<close>

definition joes_workbook :: workbook where
  "joes_workbook =
     \<lparr> SheetNames = [''Businesses'', ''Notes''],
       Sheets = [(''Notes'', notes_sheet), (''Businesses'', joes_sheet)] \<rparr>"

definition accepts :: "request \<Rightarrow> error + response" where
  "accepts r = Inr \<lparr> ok = True, json = Inr (JObj [(''imported'', JBool True)]) \<rparr>"

definition refuses :: "request \<Rightarrow> error + response" where
  "refuses r = Inr \<lparr> ok = False, json = Inr JNull \<rparr>"

definition garbled :: "request \<Rightarrow> error + response" where
  "garbled r = Inr \<lparr> ok = True, json = Inl (Error ''Unexpected token'') \<rparr>"

definition unreachable :: "request \<Rightarrow> error + response" where
  "unreachable r = Inl (Error ''Failed to fetch'')"

text \<open>
  A development build against a local server. The file \<open>businesses.xlsx\<close> holds Joe's
  workbook, \<open>corrupt.xlsx\<close> can be read but is no workbook, any other file cannot be read.
\<close>

definition test_env :: "(request \<Rightarrow> error + response) \<Rightarrow> env" where
  "test_env server =
     \<lparr> NODE_ENV = Some ''development'',
       REACT_APP_API_URL_PROD = Some ''https://api.example.com'',
       REACT_APP_API_URL = Some ''http://localhost:5000'',
       readAsBinaryString = (\<lambda>f. if f = ''businesses.xlsx'' then FiresLoad ''workbook bytes''
                                  else if f = ''corrupt.xlsx'' then FiresLoad ''garbage''
                                  else FiresError),
       XLSX_read = (\<lambda>d. if d = ''workbook bytes'' then Inr joes_workbook
                         else Inl (Error ''Unsupported file'')),
       sheet_to_json = (\<lambda>ws. case ws of None \<Rightarrow> Inr [] | Some w \<Rightarrow> Inr (sheet_to_json_spec w)),
       fetch = server \<rparr>"

definition fresh_state :: state where
  "fresh_state = \<lparr> formData = initialBusinessForm, importError = None, trace = [] \<rparr>"

definition acme_state :: state where
  "acme_state = fresh_state\<lparr>formData := initialBusinessForm\<lparr>name := ''Acme''\<rparr>\<rparr>"

text \<open>A record without a phone number, with one machine that has only a name, and an empty slot.\<close>

definition bare_state :: state where
  "bare_state =
     fresh_state\<lparr>formData := initialBusinessForm
       \<lparr>name := ''Acme'', phone := None, machinery := Some [Machine [(''name'', ''Lathe'')], Empty]\<rparr>\<rparr>"

text \<open>The form after a machine field was written at index 2 of the initial, empty list.\<close>

definition sparse_form :: BusinessForm where
  "sparse_form = handleMachineChange 2 ''name'' ''Saw'' initialBusinessForm"

text \<open>A state that still shows the message of an earlier import.\<close>

definition stale_state :: state where
  "stale_state = fresh_state\<lparr>importError := Some ''Error reading file''\<rparr>"

definition lathe :: slot where
  "lathe = Machine [(''name'', ''Lathe''), (''description'', ''''), (''manufacturer'', ''''),
       (''yearOfManufacture'', ''''), (''specifications'', '''')]"

definition press :: slot where
  "press = Machine [(''name'', ''Press''), (''description'', ''''), (''manufacturer'', ''''),
       (''yearOfManufacture'', ''''), (''specifications'', '''')]"

definition saw :: slot where
  "saw = Machine [(''name'', ''Saw''), (''description'', ''''), (''manufacturer'', ''''),
       (''yearOfManufacture'', ''''), (''specifications'', '''')]"

definition workshop :: BusinessForm where
  "workshop = initialBusinessForm\<lparr>name := ''Workshop'', machinery := Some [lathe, press, saw]\<rparr>"

section \<open>The record builder: removing and editing machines\<close>

lemma array_filter_keeps:
  "Empty \<notin> set xs \<Longrightarrow> k < i \<or> i + int (length xs) \<le> k \<Longrightarrow>
   array_filter (\<lambda>j. j \<noteq> k) i xs = xs"
  by (induction xs arbitrary: i) auto

lemma array_filter_deletes:
  "Empty \<notin> set xs \<Longrightarrow> i \<le> k \<Longrightarrow> nat (k - i) < length xs \<Longrightarrow>
   array_filter (\<lambda>j. j \<noteq> k) i xs = take (nat (k - i)) xs @ drop (Suc (nat (k - i))) xs"
proof (induction xs arbitrary: i)
  case Nil
  then show ?case by simp
next
  case (Cons x xs)
  show ?case
  proof (cases "i = k")
    case True
    with Cons.prems show ?thesis by (simp add: array_filter_keeps)
  next
    case False
    with Cons.prems have lt: "i + 1 \<le> k" and len: "nat (k - (i + 1)) < length xs"
      by auto
    have n: "nat (k - i) = Suc (nat (k - (i + 1)))" using lt by simp
    from Cons.prems have d: "Empty \<notin> set xs" "x \<noteq> Empty" by auto
    show ?thesis
      using Cons.IH [OF d(1) lt len] False d(2) by (simp add: n)
  qed
qed

lemma machinery_or_empty_removeMachine:
  "machinery_or_empty (removeMachine i prev)
     = array_filter (\<lambda>j. j \<noteq> i) 0 (machinery_or_empty prev)"
  by (simp add: removeMachine_def) (simp add: machinery_or_empty_def)

text \<open>Writing at index 2 of the empty list leaves two empty slots in front of the new machine.\<close>

lemma sparse_list: "machinery_or_empty sparse_form = [Empty, Empty, Machine [(''name'', ''Saw'')]]"
  by (simp add: sparse_form_def handleMachineChange_def machinery_or_empty_def
      initialBusinessForm_def array_spread_def array_assign_def array_get_def obj_set_def
      numeral_2_eq_2)

text \<open>
  C2, as stated: for every machinery list of length \<open>n\<close> and every index \<open>i\<close> with
  \<open>0 \<le> i < n\<close>, \<open>removeMachine i\<close> gives a list of length \<open>n - 1\<close>. On the list of length 3
  that \<open>handleMachineChange 2\<close> makes of the initial form, whose first two positions are
  empty slots, \<^verbatim>\<open>filter\<close> visits only the machine at position 2 and keeps it:
  \<open>removeMachine 0\<close> gives a list of length 1, not 2.
\<close>

theorem removeMachine_sparse_counterexample:
  "length (machinery_or_empty (removeMachine 0 sparse_form))
     \<noteq> length (machinery_or_empty sparse_form) - 1"
  by (simp add: machinery_or_empty_removeMachine sparse_list)

text \<open>
  C2, amended: for every machinery list of length \<open>n\<close> that has no empty slot and every
  index \<open>i\<close> with \<open>0 \<le> i < n\<close>, \<open>removeMachine i\<close> gives the list of length \<open>n - 1\<close> that is
  the original with the element at position \<open>i\<close> deleted and the others in their order, and
  changes no other field of the record.
\<close>

theorem removeMachine_deletes_position:
  assumes "Empty \<notin> set (machinery_or_empty prev)"
    and "0 \<le> i" and "nat i < length (machinery_or_empty prev)"
  shows "removeMachine i prev =
           prev\<lparr>machinery := Some (take (nat i) (machinery_or_empty prev)
                                    @ drop (Suc (nat i)) (machinery_or_empty prev))\<rparr>
         \<and> length (machinery_or_empty (removeMachine i prev))
             = length (machinery_or_empty prev) - 1"
proof -
  have "array_filter (\<lambda>j. j \<noteq> i) 0 (machinery_or_empty prev) =
          take (nat i) (machinery_or_empty prev) @ drop (Suc (nat i)) (machinery_or_empty prev)"
    using array_filter_deletes [of "machinery_or_empty prev" 0 i] assms by simp
  then show ?thesis
    using assms by (simp add: removeMachine_def machinery_or_empty_def)
qed

theorem removeMachine_deletes_position_witness:
  "removeMachine 1 workshop = workshop\<lparr>machinery := Some [lathe, saw]\<rparr>
   \<and> length (machinery_or_empty (removeMachine 1 workshop)) = 2"
  using removeMachine_deletes_position [of workshop 1]
  by (simp add: workshop_def machinery_or_empty_def lathe_def press_def saw_def)

text \<open>
  C10, as stated: for every machinery list of length \<open>n\<close> and every index outside
  \<open>[0, n)\<close>, \<open>removeMachine\<close> returns the list unchanged. On the same list of length 3 with
  two empty slots, \<open>removeMachine 5\<close> returns the one machine alone: \<^verbatim>\<open>filter\<close> does not copy
  the empty slots.
\<close>

theorem removeMachine_sparse_identity_counterexample:
  "machinery_or_empty (removeMachine 5 sparse_form) \<noteq> machinery_or_empty sparse_form"
  by (simp add: machinery_or_empty_removeMachine sparse_list)

text \<open>
  C10, amended: for every machinery list of length \<open>n\<close> that has no empty slot and every
  index outside \<open>[0, n)\<close>, \<open>removeMachine\<close> leaves the machinery list as it is.
\<close>

theorem removeMachine_out_of_range:
  assumes "Empty \<notin> set (machinery_or_empty prev)"
    and "i < 0 \<or> int (length (machinery_or_empty prev)) \<le> i"
  shows "machinery_or_empty (removeMachine i prev) = machinery_or_empty prev"
  using array_filter_keeps [of "machinery_or_empty prev" i 0] assms
  by (auto simp add: removeMachine_def machinery_or_empty_def)

theorem removeMachine_out_of_range_witness:
  "machinery_or_empty (removeMachine 3 workshop) = [lathe, press, saw]
   \<and> machinery_or_empty (removeMachine (- 1) workshop) = [lathe, press, saw]"
  using removeMachine_out_of_range [of workshop 3] removeMachine_out_of_range [of workshop "- 1"]
  by (simp add: workshop_def machinery_or_empty_def lathe_def press_def saw_def)

lemma map_of_obj_insert:
  "k \<notin> fst ` set ps \<Longrightarrow> map_of (obj_insert k v ps) k' = (if k' = k then Some v else map_of ps k')"
  by (induction ps) (auto split: option.splits)

lemma map_of_obj_replace:
  "map_of (obj_replace k v ps) k'
     = (if k' = k \<and> k \<in> fst ` set ps then Some v else map_of ps k')"
  by (induction ps) (force simp add: image_iff)+

text \<open>Writing a property changes the value under that key and no other.\<close>

lemma map_of_obj_set:
  "map_of (obj_set k v ps) k' = (if k' = k then Some v else map_of ps k')"
proof (cases "k \<in> fst ` set ps")
  case True
  then show ?thesis
    unfolding obj_set_def using map_of_obj_replace [of k v ps k'] by simp
next
  case False
  then show ?thesis
    unfolding obj_set_def using map_of_obj_insert [of k ps v k'] by simp
qed

lemma length_array_spread: "length (array_spread xs) = length xs"
  by (simp add: array_spread_def)

lemma machinery_or_empty_handleMachineChange:
  "machinery_or_empty (handleMachineChange i nm val prev) =
     array_assign (array_spread (machinery_or_empty prev)) i
       (Machine (obj_set nm val (spread_props (array_get (array_spread (machinery_or_empty prev)) i))))"
  by (simp add: handleMachineChange_def Let_def) (simp add: machinery_or_empty_def)

text \<open>The length after an assignment: only an index from the end up to \<open>2^32 - 2\<close> changes it.\<close>

lemma length_array_assign:
  "length (array_assign xs i v)
     = (if int (length xs) \<le> i \<and> i < 2 ^ 32 - 1 then nat i + 1 else length xs)"
proof -
  consider (inside) "0 \<le> i" "nat i < length xs"
    | (neg) "i < 0"
    | (big) "int (length xs) \<le> i" "2 ^ 32 - 1 \<le> i"
    | (grow) "int (length xs) \<le> i" "i < 2 ^ 32 - 1"
    by linarith
  then show ?thesis
  proof cases
    case inside
    then have "\<not> int (length xs) \<le> i" by linarith
    with inside show ?thesis by (simp add: array_assign_def)
  next
    case neg
    then have "\<not> int (length xs) \<le> i" by linarith
    with neg show ?thesis by (simp add: array_assign_def)
  next
    case big
    then have "\<not> (0 \<le> i \<and> nat i < length xs)" by linarith
    with big show ?thesis by (simp add: array_assign_def)
  next
    case grow
    then have nn: "\<not> nat i < length xs" and small: "\<not> 2 ^ 32 - 1 \<le> i" and nonneg: "\<not> i < 0"
      by linarith+
    have len: "length xs + (nat i - length xs) = nat i" using nn by linarith
    have "array_assign xs i v = xs @ replicate (nat i - length xs) Empty @ [v]"
      using nn small nonneg by (simp add: array_assign_def)
    then show ?thesis using grow len by simp
  qed
qed

lemma handleMachineChange_inside:
  assumes "0 \<le> i" and "nat i < length (machinery_or_empty prev)"
  shows "handleMachineChange i nm val prev =
           prev\<lparr>machinery := Some ((array_spread (machinery_or_empty prev))
             [nat i := Machine (obj_set nm val (spread_props (machinery_or_empty prev ! nat i)))])\<rparr>"
proof -
  let ?ms = "machinery_or_empty prev"
  have get: "spread_props (array_get (array_spread ?ms) i) = spread_props (?ms ! nat i)"
    using assms by (cases "?ms ! nat i") (simp_all add: array_get_def array_spread_def)
  show ?thesis
    using assms by (simp add: handleMachineChange_def Let_def array_assign_def get length_array_spread)
qed

lemma handleMachineChange_no_element:
  assumes "i < 0 \<or> (int (length (machinery_or_empty prev)) \<le> i \<and> 2 ^ 32 - 1 \<le> i)"
  shows "machinery_or_empty (handleMachineChange i nm val prev)
           = array_spread (machinery_or_empty prev)"
proof -
  let ?xs = "array_spread (machinery_or_empty prev)"
  from assms have out: "\<not> (0 \<le> i \<and> nat i < length ?xs)"
    and noidx: "i < 0 \<or> 2 ^ 32 - 1 \<le> i"
    unfolding length_array_spread by linarith+
  have "array_assign ?xs i v = ?xs" for v
    using out noidx by (auto simp add: array_assign_def)
  then show ?thesis
    by (simp only: machinery_or_empty_handleMachineChange)
qed

text \<open>
  C3, as stated: \<open>handleMachineChange\<close> never changes the length of the machinery list,
  whatever the index. It does: on the empty list of the initial form, index \<open>0\<close> names no
  element, the assignment \<^verbatim>\<open>newMachinery[0] = ...\<close> extends the copy, and the list has one
  element afterwards.
\<close>

theorem handleMachineChange_grows_counterexample:
  "length (machinery_or_empty (handleMachineChange 0 ''name'' ''Lathe'' initialBusinessForm))
     \<noteq> length (machinery_or_empty initialBusinessForm)"
  by (simp add: handleMachineChange_def machinery_or_empty_def initialBusinessForm_def
      array_spread_def array_assign_def array_get_def)

text \<open>
  C3, amended: for every index \<open>i\<close> and every name and value, \<open>handleMachineChange\<close> keeps
  the length \<open>n\<close> of the machinery list unless \<open>n \<le> i < 2^32 - 1\<close>, and then the list grows to
  \<open>i + 1\<close> positions. For \<open>0 \<le> i < n\<close> the new list is the copy of the old one with position
  \<open>i\<close> overwritten, and the object there has the value under the given name and, under every
  other name, what the element had before. For a negative index, and for an index from
  \<open>2^32 - 1\<close> on that is outside the list, the new list is the copy of the old one.
\<close>

theorem handleMachineChange_length:
  "length (machinery_or_empty (handleMachineChange i nm val prev))
     = (if int (length (machinery_or_empty prev)) \<le> i \<and> i < 2 ^ 32 - 1 then nat i + 1
        else length (machinery_or_empty prev))
   \<and> (0 \<le> i \<and> nat i < length (machinery_or_empty prev) \<longrightarrow>
        handleMachineChange i nm val prev =
          prev\<lparr>machinery := Some ((array_spread (machinery_or_empty prev))
            [nat i := Machine (obj_set nm val (spread_props (machinery_or_empty prev ! nat i)))])\<rparr>
        \<and> (\<forall>k. map_of (spread_props (machinery_or_empty (handleMachineChange i nm val prev) ! nat i)) k
               = (if k = nm then Some val
                  else map_of (spread_props (machinery_or_empty prev ! nat i)) k)))
   \<and> (i < 0 \<or> (int (length (machinery_or_empty prev)) \<le> i \<and> 2 ^ 32 - 1 \<le> i) \<longrightarrow>
        machinery_or_empty (handleMachineChange i nm val prev)
          = array_spread (machinery_or_empty prev))"
proof (intro conjI impI)
  show "length (machinery_or_empty (handleMachineChange i nm val prev))
     = (if int (length (machinery_or_empty prev)) \<le> i \<and> i < 2 ^ 32 - 1 then nat i + 1
        else length (machinery_or_empty prev))"
    by (simp only: machinery_or_empty_handleMachineChange length_array_assign length_array_spread)
next
  assume r: "0 \<le> i \<and> nat i < length (machinery_or_empty prev)"
  then show "handleMachineChange i nm val prev =
          prev\<lparr>machinery := Some ((array_spread (machinery_or_empty prev))
            [nat i := Machine (obj_set nm val (spread_props (machinery_or_empty prev ! nat i)))])\<rparr>"
    by (simp add: handleMachineChange_inside)
next
  assume r: "0 \<le> i \<and> nat i < length (machinery_or_empty prev)"
  have "machinery_or_empty (handleMachineChange i nm val prev) =
      (array_spread (machinery_or_empty prev))
        [nat i := Machine (obj_set nm val (spread_props (machinery_or_empty prev ! nat i)))]"
    using r by (simp add: handleMachineChange_inside) (simp add: machinery_or_empty_def)
  then show "\<forall>k. map_of (spread_props (machinery_or_empty (handleMachineChange i nm val prev) ! nat i)) k
               = (if k = nm then Some val
                  else map_of (spread_props (machinery_or_empty prev ! nat i)) k)"
    using r by (simp add: length_array_spread map_of_obj_set)
next
  assume "i < 0 \<or> (int (length (machinery_or_empty prev)) \<le> i \<and> 2 ^ 32 - 1 \<le> i)"
  then show "machinery_or_empty (handleMachineChange i nm val prev)
          = array_spread (machinery_or_empty prev)"
    by (rule handleMachineChange_no_element)
qed

theorem handleMachineChange_length_witness:
  "length (machinery_or_empty (handleMachineChange 1 ''name'' ''Drill'' workshop)) = 3
   \<and> handleMachineChange 1 ''name'' ''Drill'' workshop =
       workshop\<lparr>machinery := Some [lathe,
          Machine [(''name'', ''Drill''), (''description'', []), (''manufacturer'', []),
                   (''yearOfManufacture'', []), (''specifications'', [])], saw]\<rparr>
   \<and> machinery_or_empty (handleMachineChange (- 1) ''name'' ''Drill'' workshop) = [lathe, press, saw]
   \<and> machinery_or_empty (handleMachineChange 4294967295 ''name'' ''Drill'' workshop)
       = [lathe, press, saw]
   \<and> length (machinery_or_empty (handleMachineChange 5 ''name'' ''Drill'' workshop)) = 6"
  using handleMachineChange_length [of 1 "''name''" "''Drill''" workshop]
    handleMachineChange_length [of "- 1" "''name''" "''Drill''" workshop]
    handleMachineChange_length [of 4294967295 "''name''" "''Drill''" workshop]
    handleMachineChange_length [of 5 "''name''" "''Drill''" workshop]
  by (simp add: workshop_def machinery_or_empty_def lathe_def press_def saw_def
      array_spread_def obj_set_def)

lemma addMachine_length:
  "length (machinery_or_empty (addMachine prev)) = Suc (length (machinery_or_empty prev))"
proof -
  have "machinery_or_empty (addMachine prev)
          = array_spread (machinery_or_empty prev) @ [Machine initialMachineForm]"
    by (simp add: addMachine_def) (simp add: machinery_or_empty_def)
  then show ?thesis by (simp add: length_array_spread)
qed

section \<open>Submitting one record\<close>

lemma requests_of_append: "requests_of (es @ fs) = requests_of es @ requests_of fs"
  by (induction es rule: requests_of.induct) simp_all

lemma navigations_of_append: "navigations_of (es @ fs) = navigations_of es @ navigations_of fs"
  by (induction es rule: navigations_of.induct) simp_all

lemmas effect_defs =
  emit_def send_def navigate_def console_error_def console_log_def setImportError_def

text \<open>
  C7, as stated: a successful submit of the record with the name Acme issues one POST whose
  body is \<^verbatim>\<open>{"name":"Acme"}\<close>. The handler writes the whole record of the form, which always
  has its other properties as well: for the initial form with the name Acme the body is not
  that text.
\<close>

theorem handleSubmit_body_counterexample:
  \<open>requests (handleSubmit (test_env accepts) acme_state) \<noteq>
     [\<lparr> url = ''http://localhost:5000/api/businesses'', http_method = ''POST'',
        headers = [(''Content-Type'', ''application/json'')],
        body = ''{"name":"Acme"}'' \<rparr>]\<close>
  by (simp add: handleSubmit_def Let_def effect_defs requests_def submit_request_def post_json_def
      test_env_def accepts_def acme_state_def fresh_state_def initialBusinessForm_def
      apiUrl_def template_def form_json_def optional_prop_def quote_string_def quote_char_def)

text \<open>
  C7, amended: a successful submit issues exactly one POST to \<open>{apiBase}/api/businesses\<close>
  whose body is the JSON text of the whole current record of the form, and then navigates to
  the listing route; the bulk endpoint is not called. For the initial form with the name
  Acme the body is the text with all eleven properties that the instance below shows.
\<close>

theorem handleSubmit_success:
  assumes "fetch E (submit_request E (formData s)) = Inr resp" and "ok resp"
  shows "trace (handleSubmit E s) =
           trace s @ [Fetch \<lparr> url = template (apiUrl E) @ ''/api/businesses'', http_method = ''POST'',
                             headers = [(''Content-Type'', ''application/json'')],
                             body = JSON_stringify (form_json (formData s)) \<rparr>,
                      Navigate ''/businesses'']
         \<and> requests (handleSubmit E s) = requests s @ [submit_request E (formData s)]
         \<and> url (submit_request E (formData s)) \<noteq> template (apiUrl E) @ ''/api/businesses/bulk''"
  using assms
  by (simp add: handleSubmit_def Let_def effect_defs requests_def requests_of_append
      submit_request_def post_json_def)

theorem handleSubmit_success_witness:
  \<open>trace (handleSubmit (test_env accepts) acme_state) =
     [Fetch \<lparr> url = ''http://localhost:5000/api/businesses'', http_method = ''POST'',
              headers = [(''Content-Type'', ''application/json'')],
              body = ''{"name":"Acme","corporateId":"","phone":"","website":"","description":"","businessType":"","location":"","email":"","isOpen":true,"openToNewBusiness":true,"machinery":[]}'' \<rparr>,
      Navigate ''/businesses'']
   \<and> trace (handleSubmit (test_env accepts) bare_state) =
     [Fetch \<lparr> url = ''http://localhost:5000/api/businesses'', http_method = ''POST'',
              headers = [(''Content-Type'', ''application/json'')],
              body = ''{"name":"Acme","corporateId":"","website":"","description":"","businessType":"","location":"","email":"","isOpen":true,"openToNewBusiness":true,"machinery":[{"name":"Lathe"},null]}'' \<rparr>,
      Navigate ''/businesses'']\<close>
  using handleSubmit_success [of "test_env accepts" acme_state
      "\<lparr> ok = True, json = Inr (JObj [(''imported'', JBool True)]) \<rparr>"]
    handleSubmit_success [of "test_env accepts" bare_state
      "\<lparr> ok = True, json = Inr (JObj [(''imported'', JBool True)]) \<rparr>"]
  by (simp add: test_env_def accepts_def acme_state_def bare_state_def fresh_state_def
      initialBusinessForm_def apiUrl_def template_def form_json_def optional_prop_def
      quote_string_def quote_char_def)

text \<open>
  C8: when a submit fails, by a status that is not a success or by a network error, the
  failure is only written to the console: the error message of the page keeps its value,
  the record too, and nothing is navigated to.
\<close>

theorem handleSubmit_failure:
  assumes "submit_failed E s"
  shows "importError (handleSubmit E s) = importError s
         \<and> formData (handleSubmit E s) = formData s
         \<and> navigations (handleSubmit E s) = navigations s
         \<and> trace (handleSubmit E s) =
             trace s @ [Fetch (submit_request E (formData s)), ConsoleError ''Error creating business:'']"
  using assms
  by (auto simp add: submit_failed_def handleSubmit_def Let_def effect_defs navigations_def
      navigations_of_append split: sum.splits)

theorem handleSubmit_failure_witness:
  "submit_failed (test_env refuses) acme_state \<and> submit_failed (test_env unreachable) acme_state
   \<and> importError (handleSubmit (test_env refuses) acme_state) = None
   \<and> navigations (handleSubmit (test_env refuses) acme_state) = []
   \<and> importError (handleSubmit (test_env unreachable) acme_state) = None
   \<and> navigations (handleSubmit (test_env unreachable) acme_state) = []"
proof -
  have r: "submit_failed (test_env refuses) acme_state"
    by (simp add: submit_failed_def test_env_def refuses_def)
  have u: "submit_failed (test_env unreachable) acme_state"
    by (simp add: submit_failed_def test_env_def unreachable_def)
  show ?thesis
    using r u handleSubmit_failure [OF r] handleSubmit_failure [OF u]
    by (simp add: acme_state_def fresh_state_def navigations_def)
qed

section \<open>The import pipeline\<close>

text \<open>
  C9: whatever file is selected and whatever the record is, the import pipeline leaves the
  record of the form, its machinery list included, as it was.
\<close>

theorem handleFileUpload_keeps_formData:
  "formData (handleFileUpload E file s) = formData s"
  by (simp add: handleFileUpload_def reader_onload_def reader_onerror_def import_failed_def
      Let_def effect_defs split: option.splits read_result.splits sum.splits)

theorem handleFileUpload_keeps_formData_witness:
  "formData (handleFileUpload (test_env accepts) (Some ''businesses.xlsx'') acme_state)
     = initialBusinessForm\<lparr>name := ''Acme''\<rparr>"
  using handleFileUpload_keeps_formData [of "test_env accepts" "Some ''businesses.xlsx''" acme_state]
  by (simp add: acme_state_def)

text \<open>
  C5: when the reader fails to read the selected file, the error message is exactly
  \<open>Error reading file\<close> and the pipeline sends no request (it does nothing else at all).
\<close>

theorem handleFileUpload_read_error:
  assumes "readAsBinaryString E f = FiresError"
  shows "importError (handleFileUpload E (Some f) s) = Some ''Error reading file''
         \<and> trace (handleFileUpload E (Some f) s) = trace s
         \<and> requests (handleFileUpload E (Some f) s) = requests s"
  using assms
  by (simp add: handleFileUpload_def reader_onerror_def Let_def effect_defs requests_def)

theorem handleFileUpload_read_error_witness:
  "importError (handleFileUpload (test_env accepts) (Some ''missing.xlsx'') fresh_state)
     = Some ''Error reading file''
   \<and> requests (handleFileUpload (test_env accepts) (Some ''missing.xlsx'') fresh_state) = []"
  using handleFileUpload_read_error [of "test_env accepts" "''missing.xlsx''" fresh_state]
  by (simp add: test_env_def fresh_state_def requests_def)

text \<open>
  C6: when the bulk endpoint answers with a status that is not a success, or with a success
  whose body does not parse, the error message is
  \<open>Failed to import businesses. Please check your spreadsheet format.\<close> and nothing is
  navigated to.
\<close>

theorem handleFileUpload_import_refused:
  assumes "readAsBinaryString E f = FiresLoad data"
    and "XLSX_read E data = Inr wb"
    and "sheet_to_json E (first_sheet wb) = Inr jsonData"
    and "fetch E (bulk_request E jsonData) = Inr resp"
    and "\<not> ok resp \<or> isl (json resp)"
  shows "importError (handleFileUpload E (Some f) s)
           = Some ''Failed to import businesses. Please check your spreadsheet format.''
         \<and> navigations (handleFileUpload E (Some f) s) = navigations s
         \<and> trace (handleFileUpload E (Some f) s)
             = trace s @ [Fetch (bulk_request E jsonData), ConsoleError ''Import error:'']"
  using assms
  by (auto simp add: handleFileUpload_def reader_onload_def import_failed_def Let_def effect_defs
      navigations_def navigations_of_append split: sum.splits)

theorem handleFileUpload_import_refused_witness:
  "importError (handleFileUpload (test_env refuses) (Some ''businesses.xlsx'') fresh_state)
     = Some ''Failed to import businesses. Please check your spreadsheet format.''
   \<and> navigations (handleFileUpload (test_env refuses) (Some ''businesses.xlsx'') fresh_state) = []
   \<and> importError (handleFileUpload (test_env garbled) (Some ''businesses.xlsx'') fresh_state)
     = Some ''Failed to import businesses. Please check your spreadsheet format.''
   \<and> navigations (handleFileUpload (test_env garbled) (Some ''businesses.xlsx'') fresh_state) = []"
  using handleFileUpload_import_refused [of "test_env refuses" "''businesses.xlsx''"
      "''workbook bytes''" joes_workbook "sheet_to_json_spec joes_sheet"
      "\<lparr> ok = False, json = Inr JNull \<rparr>" fresh_state]
    handleFileUpload_import_refused [of "test_env garbled" "''businesses.xlsx''"
      "''workbook bytes''" joes_workbook "sheet_to_json_spec joes_sheet"
      "\<lparr> ok = True, json = Inl (Error ''Unexpected token'') \<rparr>" fresh_state]
  by (simp add: test_env_def refuses_def garbled_def first_sheet_def joes_workbook_def
      fresh_state_def navigations_def)

text \<open>
  C4: a workbook that fails to parse should end with the message \<open>Error processing file\<close>.
  The parse runs in the load handler, after the \<^verbatim>\<open>try\<close> block that carries that message has
  been left: for a file that is read but is no workbook, the message cleared at the start
  stays cleared and nothing is written to the console.
\<close>

theorem handleFileUpload_decode_throws:
  "importError (handleFileUpload (test_env accepts) (Some ''corrupt.xlsx'') stale_state) = None
   \<and> trace (handleFileUpload (test_env accepts) (Some ''corrupt.xlsx'') stale_state) = []"
  by (simp add: handleFileUpload_def reader_onload_def test_env_def stale_state_def
      fresh_state_def setImportError_def)

lemma joes_rows:
  "sheet_to_json_spec joes_sheet = [JObj [(''name'', JStr ''Joe's Shop''), (''phone'', JStr ''555-1234'')]]"
  by (simp add: joes_sheet_def)

lemma joes_request:
  \<open>bulk_request E (sheet_to_json_spec joes_sheet) =
     \<lparr> url = template (apiUrl E) @ ''/api/businesses/bulk'', http_method = ''POST'',
       headers = [(''Content-Type'', ''application/json'')],
       body = ''{"businesses":[{"name":"Joe's Shop","phone":"555-1234"}]}'' \<rparr>\<close>
  by (simp add: bulk_request_def post_json_def joes_rows quote_string_def quote_char_def)

text \<open>Once the sheet is converted, the load handler sends its one request, whatever the answer.\<close>

lemma requests_reader_onload:
  assumes "XLSX_read E data = Inr wb" and "sheet_to_json E (first_sheet wb) = Inr jsonData"
  shows "requests (reader_onload E data s) = requests s @ [bulk_request E jsonData]"
  using assms
  by (simp add: reader_onload_def import_failed_def Let_def effect_defs requests_def
      requests_of_append split: sum.splits)

text \<open>
  C1: for a workbook whose first sheet, by the order of its sheet names, has the header row
  \<open>name, phone\<close> and the one data row \<open>Joe's Shop, 555-1234\<close>, the conversion gives the one
  row object \<^verbatim>\<open>{"name": "Joe's Shop", "phone": "555-1234"}\<close>, and the pipeline issues exactly
  one POST, to \<open>{apiBase}/api/businesses/bulk\<close>, with the body
  \<^verbatim>\<open>{"businesses":[{"name":"Joe's Shop","phone":"555-1234"}]}\<close>. The conversion is the
  library's; it is taken to do what \<open>sheet_to_json_spec\<close> says.
\<close>

theorem handleFileUpload_joes_shop:
  assumes "readAsBinaryString E f = FiresLoad data"
    and "XLSX_read E data = Inr wb"
    and "SheetNames wb = sheetName # others"
    and "map_of (Sheets wb) sheetName = Some joes_sheet"
    and "sheet_to_json E (Some joes_sheet) = Inr (sheet_to_json_spec joes_sheet)"
  shows \<open>sheet_to_json_spec joes_sheet
           = [JObj [(''name'', JStr ''Joe's Shop''), (''phone'', JStr ''555-1234'')]]
         \<and> requests (handleFileUpload E (Some f) s) =
             requests s @ [\<lparr> url = template (apiUrl E) @ ''/api/businesses/bulk'', http_method = ''POST'',
                              headers = [(''Content-Type'', ''application/json'')],
                              body = ''{"businesses":[{"name":"Joe's Shop","phone":"555-1234"}]}'' \<rparr>]\<close>
proof -
  have first: "first_sheet wb = Some joes_sheet"
    using assms(3,4) by (simp add: first_sheet_def)
  have "requests (setImportError None s) = requests s"
    by (simp add: requests_def setImportError_def)
  then have req: "requests (handleFileUpload E (Some f) s)
          = requests s @ [bulk_request E (sheet_to_json_spec joes_sheet)]"
    using assms(1,2,5) first requests_reader_onload [of E data wb "sheet_to_json_spec joes_sheet"]
    by (simp add: handleFileUpload_def Let_def)
  show ?thesis
    by (rule conjI [OF joes_rows]) (simp only: req joes_request)
qed

theorem handleFileUpload_joes_shop_witness:
  \<open>SheetNames joes_workbook = ''Businesses'' # [''Notes'']
   \<and> map_of (Sheets joes_workbook) ''Businesses'' = Some joes_sheet
   \<and> requests (handleFileUpload (test_env accepts) (Some ''businesses.xlsx'') fresh_state) =
     [\<lparr> url = ''http://localhost:5000/api/businesses/bulk'', http_method = ''POST'',
        headers = [(''Content-Type'', ''application/json'')],
        body = ''{"businesses":[{"name":"Joe's Shop","phone":"555-1234"}]}'' \<rparr>]\<close>
proof -
  have n: "SheetNames joes_workbook = ''Businesses'' # [''Notes'']"
    by (simp add: joes_workbook_def)
  have m: "map_of (Sheets joes_workbook) ''Businesses'' = Some joes_sheet"
    by (simp add: joes_workbook_def)
  have r: "readAsBinaryString (test_env accepts) ''businesses.xlsx'' = FiresLoad ''workbook bytes''"
    by (simp add: test_env_def)
  have x: "XLSX_read (test_env accepts) ''workbook bytes'' = Inr joes_workbook"
    by (simp add: test_env_def)
  have j: "sheet_to_json (test_env accepts) (Some joes_sheet) = Inr (sheet_to_json_spec joes_sheet)"
    by (simp add: test_env_def)
  show ?thesis
    using n m handleFileUpload_joes_shop [OF r x n m j, of fresh_state]
    by (simp add: test_env_def fresh_state_def requests_def apiUrl_def template_def)
qed

end
